theory Spec2Isabelle
  imports Complex_Main
begin

section \<open>Data model of \<open>createGradient.ts\<close>\<close>

text \<open>
  JavaScript numbers are modelled as \<^typ>\<open>real\<close>: the gradient code itself performs no
  arithmetic, it only moves numbers between records and hands them to the colour
  library. \<open>NaN\<close> and the infinities are outside the model.

  An \<open>OklchPoint\<close> is the triple \<open>{l, c, h}\<close> of the source; \<open>h\<close> is
  \<open>number | undefined\<close>. A colour object of the library in mode \<open>oklch\<close> carries
  the same three channels and an optional \<open>alpha\<close>; the \<open>mode\<close> tag is constant and
  left out.
\<close>

record OklchPoint =
  l :: real
  c :: real
  h :: "real option"

record Oklch = OklchPoint +
  alpha :: "real option"

text \<open>
  \<open>GradientOptions\<close> has five optional fields; \<open>Required<GradientOptions>\<close> has the same
  five fields, all present. One record, with the type of a field as parameter, gives both.
  A field that the caller sets explicitly to \<open>undefined\<close> is not modelled.
\<close>

record 'a OptionsFields =
  minL :: 'a
  maxL :: 'a
  darkChroma :: 'a
  lightChroma :: 'a
  mainColorStop :: 'a

type_synonym GradientOptions = "real option OptionsFields"
type_synonym RequiredGradientOptions = "real OptionsFields"

text \<open>
  \<open>Gradient\<close> and the \<open>oklchPoints\<close> record are objects keyed by the luminance labels:
  partial maps from the label.
\<close>

type_synonym Gradient = "nat \<rightharpoonup> string"

record GradientWithOklch =
  gradient :: Gradient
  oklchPoints :: "nat \<rightharpoonup> OklchPoint"
  mainColorOklch :: OklchPoint

datatype error = TypeError string

section \<open>Constants\<close>

definition LUMINANCE :: "nat list" where
  "LUMINANCE = [950, 900, 800, 700, 600, 500, 400, 300, 200, 100, 50]"

definition BLACK :: string where
  "BLACK = ''#000000''"

definition WHITE :: string where
  "WHITE = ''#FFFFFF''"

definition DEFAULT_OPTIONS :: RequiredGradientOptions where
  "DEFAULT_OPTIONS =
     \<lparr>minL = 0.2, maxL = 0.98, darkChroma = 0.001, lightChroma = 0.01, mainColorStop = 0.5\<rparr>"

section \<open>\<open>assert.ts\<close>\<close>

text \<open>
  \<open>assertIsDefined(val, msg?)\<close> throws a \<open>TypeError\<close> when \<open>val\<close> is \<open>undefined\<close>,
  with \<open>msg\<close> or else the default message.
\<close>

definition default_assert_message :: string where
  "default_assert_message =
     ''Expected '' @ [CHR 0x27] @ ''val'' @ [CHR 0x27] @ '' to be defined, but received undefined''"

definition assertIsDefined :: "'a option \<Rightarrow> string option \<Rightarrow> error + 'a" where
  "assertIsDefined val msg =
     (case val of
        None \<Rightarrow> Inl (TypeError (case msg of Some s \<Rightarrow> s | None \<Rightarrow> default_assert_message))
      | Some v \<Rightarrow> Inr v)"

definition isDefined :: "'a option \<Rightarrow> bool" where
  "isDefined val = (val \<noteq> None)"

section \<open>The colour library\<close>

text \<open>
  The functions imported from \<open>culori/fn\<close> are not part of the repository. They are a
  parameter of the model, one field for each use the source makes of them:
  \<^item> \<open>clampGamut_css\<close>: \<open>clampGamut('oklch')\<close> applied to the colour string; the result
    is a colour in some mode \<open>'c\<close>, or \<open>undefined\<close>;
  \<^item> \<open>converter_oklch\<close>: \<open>converter('oklch')\<close>, applied to that result;
  \<^item> \<open>clampGamut\<close>: \<open>clampGamut('oklch')\<close> applied to an oklch colour object;
  \<^item> \<open>interpolate\<close>: \<open>interpolate(keyframes, 'oklch')\<close>, a keyframe being a colour with an
    optional position; the result is the path, a function of the position;
  \<^item> \<open>formatHex\<close>: the hex string of a colour, or \<open>undefined\<close>.
  The two calls of \<open>useMode\<close> only register the modes with the library.
\<close>

record 'c culori =
  clampGamut_css :: "string \<Rightarrow> 'c option"
  converter_oklch :: "'c option \<Rightarrow> Oklch option"
  clampGamut :: "Oklch \<Rightarrow> Oklch option"
  interpolate :: "(Oklch \<times> real option) list \<Rightarrow> real \<Rightarrow> Oklch"
  formatHex :: "Oklch \<Rightarrow> string option"

text \<open>
  Modelled from the spec: \<open>samples\<close> of the colour library is missing from the sources.
  Section 6 of the specification gives it as \<open>sampleEquidistant(n)\<close>, a sequence of \<open>n\<close>
  positions in \<open>[0,1]\<close>, evenly spaced and including both endpoints, and section 4.1 as the
  positions \<open>i/(n-1)\<close> for \<open>i = 0..n-1\<close>.
\<close>

definition samples :: "nat \<Rightarrow> real list" where
  "samples n = map (\<lambda>i. real i / real (n - 1)) [0..<n]"

section \<open>\<open>createGradient.ts\<close>\<close>

text \<open>\<open>{ ...DEFAULT_OPTIONS, ...options }\<close>: a field of \<open>options\<close> that is present wins.\<close>

definition spread_field :: "real \<Rightarrow> real option \<Rightarrow> real" where
  "spread_field dflt given = (case given of None \<Rightarrow> dflt | Some v \<Rightarrow> v)"

definition spread_options ::
  "RequiredGradientOptions \<Rightarrow> GradientOptions option \<Rightarrow> RequiredGradientOptions" where
  "spread_options dflt options =
     (case options of
        None \<Rightarrow> dflt
      | Some given \<Rightarrow>
          \<lparr>minL = spread_field (minL dflt) (minL given),
           maxL = spread_field (maxL dflt) (maxL given),
           darkChroma = spread_field (darkChroma dflt) (darkChroma given),
           lightChroma = spread_field (lightChroma dflt) (lightChroma given),
           mainColorStop = spread_field (mainColorStop dflt) (mainColorStop given)\<rparr>)"

text \<open>\<open>const lchMainColor = oklch(clamp(mainColor))\<close>\<close>

definition lchMainColor :: "'c culori \<Rightarrow> string \<Rightarrow> Oklch option" where
  "lchMainColor lib mainColor = converter_oklch lib (clampGamut_css lib mainColor)"

text \<open>
  \<open>clamp({ ...lchMainColor, mode: 'oklch', l: opts.minL, c: opts.darkChroma })\<close>: every
  other channel of the main colour is kept.
\<close>

definition lchDarkest :: "'c culori \<Rightarrow> Oklch \<Rightarrow> RequiredGradientOptions \<Rightarrow> Oklch option" where
  "lchDarkest lib main opts = clampGamut lib (main\<lparr>l := minL opts, c := darkChroma opts\<rparr>)"

definition lchLightest :: "'c culori \<Rightarrow> Oklch \<Rightarrow> RequiredGradientOptions \<Rightarrow> Oklch option" where
  "lchLightest lib main opts = clampGamut lib (main\<lparr>l := maxL opts, c := lightChroma opts\<rparr>)"

text \<open>\<open>interpolate([lchDarkest, [lchMainColor, opts.mainColorStop], lchLightest], 'oklch')\<close>\<close>

definition lchGradient ::
  "'c culori \<Rightarrow> Oklch \<Rightarrow> Oklch \<Rightarrow> Oklch \<Rightarrow> RequiredGradientOptions \<Rightarrow> real \<Rightarrow> Oklch" where
  "lchGradient lib darkest main lightest opts =
     interpolate lib [(darkest, None), (main, Some (mainColorStop opts)), (lightest, None)]"

text \<open>\<open>samples(LUMINANCE.length).map(lchGradient)\<close>\<close>

definition sampledColors ::
  "'c culori \<Rightarrow> Oklch \<Rightarrow> Oklch \<Rightarrow> Oklch \<Rightarrow> RequiredGradientOptions \<Rightarrow> Oklch list" where
  "sampledColors lib darkest main lightest opts =
     map (lchGradient lib darkest main lightest opts) (samples (length LUMINANCE))"

text \<open>
  \<open>sampledColors.map((oklchColor, i) => ...)\<close> with \<open>formatHex\<close> and the assertion: the
  recursion carries the index \<open>i\<close>, and the first colour without a hex string throws.
  \<open>LUMINANCE[i]\<close> is read at the indices of the samples, which are \<open>0..10\<close>.
\<close>

fun discreteGradient_from ::
  "'c culori \<Rightarrow> nat \<Rightarrow> Oklch list \<Rightarrow> error + (nat \<times> string) list" where
  "discreteGradient_from lib i [] = Inr []"
| "discreteGradient_from lib i (oklchColor # rest) =
     (case assertIsDefined (formatHex lib oklchColor) None of
        Inl e \<Rightarrow> Inl e
      | Inr color \<Rightarrow>
          (case discreteGradient_from lib (Suc i) rest of
             Inl e \<Rightarrow> Inl e
           | Inr entries \<Rightarrow> Inr ((LUMINANCE ! i, color) # entries)))"

definition discreteGradient :: "'c culori \<Rightarrow> Oklch list \<Rightarrow> error + (nat \<times> string) list" where
  "discreteGradient lib colors = discreteGradient_from lib 0 colors"

fun oklchPoints_from :: "nat \<Rightarrow> Oklch list \<Rightarrow> (nat \<times> OklchPoint) list" where
  "oklchPoints_from i [] = []"
| "oklchPoints_from i (oklchColor # rest) =
     (LUMINANCE ! i, \<lparr>l = l oklchColor, c = c oklchColor, h = h oklchColor\<rparr>)
       # oklchPoints_from (Suc i) rest"

definition oklchPoints_list :: "Oklch list \<Rightarrow> (nat \<times> OklchPoint) list" where
  "oklchPoints_list colors = oklchPoints_from 0 colors"

text \<open>\<open>Object.fromEntries\<close>: the entries are written in order, a later one replaces an earlier.\<close>

definition fromEntries :: "('k \<times> 'v) list \<Rightarrow> ('k \<rightharpoonup> 'v)" where
  "fromEntries entries = fold (\<lambda>(k, v) m. m(k \<mapsto> v)) entries Map.empty"

definition createGradientWithOklch ::
  "'c culori \<Rightarrow> string \<Rightarrow> GradientOptions option \<Rightarrow> error + GradientWithOklch" where
  "createGradientWithOklch lib mainColor options =
     (let opts = spread_options DEFAULT_OPTIONS options in
      case assertIsDefined (lchMainColor lib mainColor) None of
        Inl e \<Rightarrow> Inl e
      | Inr main \<Rightarrow>
      (case assertIsDefined (lchDarkest lib main opts) None of
        Inl e \<Rightarrow> Inl e
      | Inr darkest \<Rightarrow>
      (case assertIsDefined (lchLightest lib main opts) None of
        Inl e \<Rightarrow> Inl e
      | Inr lightest \<Rightarrow>
      (let colors = sampledColors lib darkest main lightest opts in
       case discreteGradient lib colors of
        Inl e \<Rightarrow> Inl e
      | Inr entries \<Rightarrow>
          Inr \<lparr>gradient = fromEntries (entries @ [(0, WHITE), (1000, BLACK)]),
               oklchPoints = fromEntries (oklchPoints_list colors @
                 [(0, \<lparr>l = 1, c = 0, h = None\<rparr>), (1000, \<lparr>l = 0, c = 0, h = None\<rparr>)]),
               mainColorOklch = \<lparr>l = l main, c = c main, h = h main\<rparr>\<rparr>))))"

definition createGradient ::
  "'c culori \<Rightarrow> string \<Rightarrow> GradientOptions option \<Rightarrow> error + Gradient" where
  "createGradient lib mainColor options =
     (case createGradientWithOklch lib mainColor options of
        Inl e \<Rightarrow> Inl e
      | Inr result \<Rightarrow> Inr (gradient result))"


section \<open>A concrete collaborator\<close>

text \<open>
  Modelled from the spec: the colour library itself is missing from the sources, and its
  colour arithmetic (cube roots, arc tangents) does not evaluate on \<^typ>\<open>real\<close>.
  \<open>model_culori\<close> is a small executable library with the interface of section 6 of the
  specification, used wherever a statement is evaluated at a concrete input:
  \<^item> its parser knows four colour strings: \<open>#3b82f6\<close> (the default colour of the user
    interface, with its OKLCH coordinates rounded), white, black, and \<open>oklch(70% 0.4 180)\<close>,
    which denotes its own coordinates; converting the parsed colour is the identity;
  \<^item> its clamp always succeeds and returns the colour object it is given, as the library does
    for the \<open>oklch\<close> mode, which declares no gamut; on a string it only parses;
  \<^item> its path is piecewise linear through the three keyframes at positions 0, the given
    stop and 1, the hue going along the shorter arc and an undefined hue being ignored;
  \<^item> its hex string renders the lightness alone, as a grey.
\<close>

definition blue500 :: Oklch where
  "blue500 = \<lparr>l = 0.6231, c = 0.188, h = Some 259.81, alpha = None\<rparr>"

definition model_parse :: "string \<Rightarrow> Oklch option" where
  "model_parse s =
     (if s = ''#3b82f6'' then Some blue500
      else if s = ''#ffffff'' then Some \<lparr>l = 1, c = 0, h = None, alpha = None\<rparr>
      else if s = ''#000000'' then Some \<lparr>l = 0, c = 0, h = None, alpha = None\<rparr>
      else if s = ''oklch(70% 0.4 180)''
        then Some \<lparr>l = 0.7, c = 0.4, h = Some 180, alpha = None\<rparr>
      else None)"

definition model_clamp :: "Oklch \<Rightarrow> Oklch option" where
  "model_clamp col = Some col"

definition lerp :: "real \<Rightarrow> real \<Rightarrow> real \<Rightarrow> real" where
  "lerp a b t = a + t * (b - a)"

definition lerp_hue :: "real option \<Rightarrow> real option \<Rightarrow> real \<Rightarrow> real option" where
  "lerp_hue a b t =
     (case (a, b) of
        (Some x, Some y) \<Rightarrow>
          (let d = y - x;
               d' = (if 180 < d then d - 360 else if d < - 180 then d + 360 else d)
           in Some (x + t * d'))
      | (Some x, None) \<Rightarrow> Some x
      | (None, Some y) \<Rightarrow> Some y
      | (None, None) \<Rightarrow> None)"

definition mix :: "Oklch \<Rightarrow> Oklch \<Rightarrow> real \<Rightarrow> Oklch" where
  "mix a b t = \<lparr>l = lerp (l a) (l b) t, c = lerp (c a) (c b) t, h = lerp_hue (h a) (h b) t,
               alpha = None\<rparr>"

definition model_interpolate :: "(Oklch \<times> real option) list \<Rightarrow> real \<Rightarrow> Oklch" where
  "model_interpolate keyframes t =
     (case keyframes of
        [(a, _), (b, Some p), (d, _)] \<Rightarrow>
          (if t \<le> 0 then a
           else if 1 \<le> t then d
           else if t < p then mix a b (t / p)
           else mix b d ((t - p) / (1 - p)))
      | (a, _) # _ \<Rightarrow> a
      | [] \<Rightarrow> \<lparr>l = 0, c = 0, h = None, alpha = None\<rparr>)"

definition hex_digit :: "nat \<Rightarrow> char" where
  "hex_digit n = ''0123456789abcdef'' ! (n mod 16)"

definition model_formatHex :: "Oklch \<Rightarrow> string option" where
  "model_formatHex col =
     (let v = nat \<lfloor>min 1 (max 0 (l col)) * 255 + 1 / 2\<rfloor>;
          byte = [hex_digit (v div 16), hex_digit v]
      in Some (''#'' @ byte @ byte @ byte))"

definition model_culori :: "Oklch culori" where
  "model_culori =
     \<lparr>clampGamut_css = model_parse, converter_oklch = (\<lambda>x. x), clampGamut = model_clamp,
      interpolate = model_interpolate, formatHex = model_formatHex\<rparr>"

section \<open>Auxiliary facts\<close>

lemma length_LUMINANCE: "length LUMINANCE = 11"
  by (simp add: LUMINANCE_def)

lemma length_samples: "length (samples n) = n"
  by (simp add: samples_def)

lemma nth_samples: "i < n \<Longrightarrow> samples n ! i = real i / real (n - 1)"
  by (simp add: samples_def)

lemma discreteGradient_from_Inr:
  "discreteGradient_from lib i xs = Inr es \<Longrightarrow>
     es = map (\<lambda>j. (LUMINANCE ! (i + j), the (formatHex lib (xs ! j)))) [0..<length xs]
     \<and> (\<forall>x \<in> set xs. formatHex lib x \<noteq> None)"
proof (induction xs arbitrary: i es)
  case Nil
  then show ?case by simp
next
  case (Cons x xs)
  from Cons.prems obtain hex rest where
    hex: "formatHex lib x = Some hex" and
    rest: "discreteGradient_from lib (Suc i) xs = Inr rest" and
    es: "es = (LUMINANCE ! i, hex) # rest"
    by (auto simp: assertIsDefined_def split: option.splits sum.splits)
  from Cons.IH [OF rest] have
    r: "rest = map (\<lambda>j. (LUMINANCE ! (Suc i + j), the (formatHex lib (xs ! j)))) [0..<length xs]"
    and d: "\<forall>x \<in> set xs. formatHex lib x \<noteq> None" by simp_all
  have "map (\<lambda>j. (LUMINANCE ! (i + j), the (formatHex lib ((x # xs) ! j)))) [0..<length (x # xs)]
      = (LUMINANCE ! i, hex) # map (\<lambda>j. (LUMINANCE ! (i + Suc j), the (formatHex lib ((x # xs) ! Suc j)))) [0..<length xs]"
    by (simp add: upt_conv_Cons map_Suc_upt [symmetric] hex del: upt_Suc)
  with r es d hex show ?case by simp
qed

lemma discreteGradient_from_total:
  "(\<forall>x \<in> set xs. formatHex lib x \<noteq> None) \<Longrightarrow> \<exists>es. discreteGradient_from lib i xs = Inr es"
proof (induction xs arbitrary: i)
  case Nil
  then show ?case by simp
next
  case (Cons x xs)
  then obtain hex where "formatHex lib x = Some hex" by auto
  moreover from Cons obtain rest where "discreteGradient_from lib (Suc i) xs = Inr rest" by force
  ultimately show ?case by (simp add: assertIsDefined_def)
qed

lemma oklchPoints_from_eq:
  "oklchPoints_from i xs =
     map (\<lambda>j. (LUMINANCE ! (i + j), \<lparr>l = l (xs ! j), c = c (xs ! j), h = h (xs ! j)\<rparr>)) [0..<length xs]"
proof (induction xs arbitrary: i)
  case Nil
  then show ?case by simp
next
  case (Cons x xs)
  show ?case
    by (simp add: Cons.IH upt_conv_Cons map_Suc_upt [symmetric] del: upt_Suc)
qed

lemma fromEntries_map_of: "fromEntries es = map_of (rev es)"
proof -
  have "fold (\<lambda>(k, v) m. m(k \<mapsto> v)) es m = m ++ map_of (rev es)" for m :: "'a \<rightharpoonup> 'b"
    by (induction es arbitrary: m) auto
  then show ?thesis by (simp add: fromEntries_def)
qed

lemma dom_fromEntries: "dom (fromEntries es) = fst ` set es"
  by (simp add: fromEntries_map_of dom_map_of_conv_image_fst)

lemma fromEntries_lookup:
  "distinct (map fst es) \<Longrightarrow> (k, v) \<in> set es \<Longrightarrow> fromEntries es k = Some v"
  by (simp add: fromEntries_map_of map_of_is_SomeI rev_map [symmetric])

lemma createGradientWithOklch_Inr:
  assumes "createGradientWithOklch lib mainColor options = Inr r"
  obtains main darkest lightest entries where
    "lchMainColor lib mainColor = Some main"
    "lchDarkest lib main (spread_options DEFAULT_OPTIONS options) = Some darkest"
    "lchLightest lib main (spread_options DEFAULT_OPTIONS options) = Some lightest"
    "discreteGradient lib
       (sampledColors lib darkest main lightest (spread_options DEFAULT_OPTIONS options)) = Inr entries"
    "r = \<lparr>gradient = fromEntries (entries @ [(0, WHITE), (1000, BLACK)]),
          oklchPoints = fromEntries
            (oklchPoints_list
               (sampledColors lib darkest main lightest (spread_options DEFAULT_OPTIONS options)) @
             [(0, \<lparr>l = 1, c = 0, h = None\<rparr>), (1000, \<lparr>l = 0, c = 0, h = None\<rparr>)]),
          mainColorOklch = \<lparr>l = l main, c = c main, h = h main\<rparr>\<rparr>"
  using assms
  by (auto simp: createGradientWithOklch_def Let_def assertIsDefined_def
           split: option.splits sum.splits)

lemma distinct_labels: "distinct (LUMINANCE @ [0, 1000])"
  by (simp add: LUMINANCE_def)

lemma map_nth_LUMINANCE: "map (\<lambda>j. LUMINANCE ! j) [0..<11] = LUMINANCE"
  using map_nth [of LUMINANCE] by (simp only: length_LUMINANCE)

lemma length_sampledColors: "length (sampledColors lib d m li opts) = 11"
  by (simp add: sampledColors_def length_samples length_LUMINANCE)

lemma nth_sampledColors:
  "i < 11 \<Longrightarrow> sampledColors lib d m li opts ! i = lchGradient lib d m li opts (real i / 10)"
  by (simp add: sampledColors_def length_samples length_LUMINANCE nth_samples)

lemma discreteGradient_keys:
  assumes "discreteGradient lib cols = Inr es" and "length cols = 11"
  shows "map fst es = LUMINANCE"
    and "length es = 11"
    and "\<And>i. i < 11 \<Longrightarrow> es ! i = (LUMINANCE ! i, the (formatHex lib (cols ! i)))"
    and "\<And>i. i < 11 \<Longrightarrow> formatHex lib (cols ! i) \<noteq> None"
proof -
  from discreteGradient_from_Inr [OF assms(1) [unfolded discreteGradient_def]] assms(2)
  have es: "es = map (\<lambda>j. (LUMINANCE ! j, the (formatHex lib (cols ! j)))) [0..<11]"
    and df: "\<forall>x \<in> set cols. formatHex lib x \<noteq> None" by simp_all
  from es have "map fst es = map (\<lambda>j. LUMINANCE ! j) [0..<11]" by (simp add: comp_def)
  then show "map fst es = LUMINANCE" by (simp only: map_nth_LUMINANCE)
  from es show "length es = 11" by simp
  show "es ! i = (LUMINANCE ! i, the (formatHex lib (cols ! i)))" if "i < 11" for i
    using that es by simp
  show "formatHex lib (cols ! i) \<noteq> None" if "i < 11" for i
    using that df assms(2) by simp
qed

lemma oklchPoints_list_keys:
  assumes "length cols = 11"
  shows "map fst (oklchPoints_list cols) = LUMINANCE"
    and "length (oklchPoints_list cols) = 11"
    and "\<And>i. i < 11 \<Longrightarrow> oklchPoints_list cols ! i =
           (LUMINANCE ! i, \<lparr>l = l (cols ! i), c = c (cols ! i), h = h (cols ! i)\<rparr>)"
proof -
  have eq: "oklchPoints_list cols =
      map (\<lambda>j. (LUMINANCE ! j, \<lparr>l = l (cols ! j), c = c (cols ! j), h = h (cols ! j)\<rparr>)) [0..<11]"
    using assms by (simp add: oklchPoints_list_def oklchPoints_from_eq)
  from eq have "map fst (oklchPoints_list cols) = map (\<lambda>j. LUMINANCE ! j) [0..<11]"
    by (simp add: comp_def)
  then show "map fst (oklchPoints_list cols) = LUMINANCE" by (simp only: map_nth_LUMINANCE)
  from eq show "length (oklchPoints_list cols) = 11" by simp
  show "oklchPoints_list cols ! i =
           (LUMINANCE ! i, \<lparr>l = l (cols ! i), c = c (cols ! i), h = h (cols ! i)\<rparr>)" if "i < 11" for i
    using that eq by simp
qed

lemma labelled_lookup:
  assumes "map fst es = LUMINANCE" and "length es = 11"
  shows "dom (fromEntries (es @ [(0, w), (1000, b)])) = set LUMINANCE \<union> {0, 1000}"
    and "fromEntries (es @ [(0, w), (1000, b)]) 0 = Some w"
    and "fromEntries (es @ [(0, w), (1000, b)]) 1000 = Some b"
    and "\<And>i. i < 11 \<Longrightarrow> fromEntries (es @ [(0, w), (1000, b)]) (LUMINANCE ! i) = Some (snd (es ! i))"
proof -
  let ?all = "es @ [(0, w), (1000, b)]"
  have keys: "map fst ?all = LUMINANCE @ [0, 1000]" using assms(1) by simp
  then have dist: "distinct (map fst ?all)" by (simp only: distinct_labels)
  have "fst ` set ?all = set (map fst ?all)" by simp
  also have "\<dots> = set LUMINANCE \<union> {0, 1000}" by (simp only: keys) simp
  finally show "dom (fromEntries ?all) = set LUMINANCE \<union> {0, 1000}"
    by (simp only: dom_fromEntries)
  show "fromEntries ?all 0 = Some w"
    by (rule fromEntries_lookup [OF dist]) simp
  show "fromEntries ?all 1000 = Some b"
    by (rule fromEntries_lookup [OF dist]) simp
  show "fromEntries ?all (LUMINANCE ! i) = Some (snd (es ! i))" if "i < 11" for i
  proof (rule fromEntries_lookup [OF dist])
    from that assms have "fst (es ! i) = LUMINANCE ! i"
      by (metis nth_map)
    moreover from that assms(2) have "es ! i \<in> set es" by simp
    ultimately show "(LUMINANCE ! i, snd (es ! i)) \<in> set ?all"
      by (metis UnCI prod.collapse set_append)
  qed
qed

lemma createGradientWithOklch_result:
  assumes "createGradientWithOklch lib mainColor options = Inr r"
  obtains main darkest lightest where
    "lchMainColor lib mainColor = Some main"
    "lchDarkest lib main (spread_options DEFAULT_OPTIONS options) = Some darkest"
    "lchLightest lib main (spread_options DEFAULT_OPTIONS options) = Some lightest"
    "dom (gradient r) = set LUMINANCE \<union> {0, 1000}"
    "dom (oklchPoints r) = set LUMINANCE \<union> {0, 1000}"
    "gradient r 0 = Some WHITE" "gradient r 1000 = Some BLACK"
    "oklchPoints r 0 = Some \<lparr>l = 1, c = 0, h = None\<rparr>"
    "oklchPoints r 1000 = Some \<lparr>l = 0, c = 0, h = None\<rparr>"
    "mainColorOklch r = \<lparr>l = l main, c = c main, h = h main\<rparr>"
    "\<And>i. i < 11 \<Longrightarrow>
       formatHex lib (sampledColors lib darkest main lightest
         (spread_options DEFAULT_OPTIONS options) ! i) \<noteq> None"
    "\<And>i. i < 11 \<Longrightarrow>
       gradient r (LUMINANCE ! i) =
         formatHex lib (sampledColors lib darkest main lightest
           (spread_options DEFAULT_OPTIONS options) ! i)"
    "\<And>i. i < 11 \<Longrightarrow>
       oklchPoints r (LUMINANCE ! i) =
         Some \<lparr>l = l (sampledColors lib darkest main lightest
                   (spread_options DEFAULT_OPTIONS options) ! i),
               c = c (sampledColors lib darkest main lightest
                   (spread_options DEFAULT_OPTIONS options) ! i),
               h = h (sampledColors lib darkest main lightest
                   (spread_options DEFAULT_OPTIONS options) ! i)\<rparr>"
proof -
  let ?opts = "spread_options DEFAULT_OPTIONS options"
  from assms obtain main darkest lightest entries where
    m: "lchMainColor lib mainColor = Some main" and
    d: "lchDarkest lib main ?opts = Some darkest" and
    li: "lchLightest lib main ?opts = Some lightest" and
    dg: "discreteGradient lib (sampledColors lib darkest main lightest ?opts) = Inr entries" and
    r: "r = \<lparr>gradient = fromEntries (entries @ [(0, WHITE), (1000, BLACK)]),
          oklchPoints = fromEntries
            (oklchPoints_list (sampledColors lib darkest main lightest ?opts) @
             [(0, \<lparr>l = 1, c = 0, h = None\<rparr>), (1000, \<lparr>l = 0, c = 0, h = None\<rparr>)]),
          mainColorOklch = \<lparr>l = l main, c = c main, h = h main\<rparr>\<rparr>"
    by (rule createGradientWithOklch_Inr)
  let ?cols = "sampledColors lib darkest main lightest ?opts"
  have len: "length ?cols = 11" by (rule length_sampledColors)
  note G = discreteGradient_keys [OF dg len]
  note P = oklchPoints_list_keys [OF len]
  note LG = labelled_lookup [OF G(1) G(2)]
  note LP = labelled_lookup [OF P(1) P(2)]
  have g: "gradient r = fromEntries (entries @ [(0, WHITE), (1000, BLACK)])"
    and p: "oklchPoints r = fromEntries (oklchPoints_list ?cols @
             [(0, \<lparr>l = 1, c = 0, h = None\<rparr>), (1000, \<lparr>l = 0, c = 0, h = None\<rparr>)])"
    and mc: "mainColorOklch r = \<lparr>l = l main, c = c main, h = h main\<rparr>"
    by (simp_all add: r)
  show thesis
  proof (rule that [OF m d li])
    show "dom (gradient r) = set LUMINANCE \<union> {0, 1000}" by (simp only: g LG(1))
    show "dom (oklchPoints r) = set LUMINANCE \<union> {0, 1000}" by (simp only: p LP(1))
    show "gradient r 0 = Some WHITE" by (simp only: g LG(2))
    show "gradient r 1000 = Some BLACK" by (simp only: g LG(3))
    show "oklchPoints r 0 = Some \<lparr>l = 1, c = 0, h = None\<rparr>" by (simp only: p LP(2))
    show "oklchPoints r 1000 = Some \<lparr>l = 0, c = 0, h = None\<rparr>" by (simp only: p LP(3))
    show "mainColorOklch r = \<lparr>l = l main, c = c main, h = h main\<rparr>" by (rule mc)
    show "formatHex lib (?cols ! i) \<noteq> None" if "i < 11" for i by (rule G(4) [OF that])
    show "gradient r (LUMINANCE ! i) = formatHex lib (?cols ! i)" if "i < 11" for i
      using G(3) [OF that] G(4) [OF that] LG(4) [OF that] by (auto simp: g)
    show "oklchPoints r (LUMINANCE ! i) =
         Some \<lparr>l = l (?cols ! i), c = c (?cols ! i), h = h (?cols ! i)\<rparr>" if "i < 11" for i
      using P(3) [OF that] LP(4) [OF that] by (simp add: p)
  qed
qed

lemma createGradientWithOklch_shape:
  assumes "createGradientWithOklch lib mainColor options = Inr r"
    and "opts = spread_options DEFAULT_OPTIONS options"
  shows "\<exists>main darkest lightest.
    lchMainColor lib mainColor = Some main \<and>
    lchDarkest lib main opts = Some darkest \<and>
    lchLightest lib main opts = Some lightest \<and>
    mainColorOklch r = \<lparr>l = l main, c = c main, h = h main\<rparr> \<and>
    (\<forall>i<11.
       formatHex lib (sampledColors lib darkest main lightest opts ! i) \<noteq> None \<and>
       gradient r (LUMINANCE ! i) =
         formatHex lib (sampledColors lib darkest main lightest opts ! i) \<and>
       oklchPoints r (LUMINANCE ! i) =
         Some \<lparr>l = l (sampledColors lib darkest main lightest opts ! i),
               c = c (sampledColors lib darkest main lightest opts ! i),
               h = h (sampledColors lib darkest main lightest opts ! i)\<rparr>)"
  using assms(1) unfolding assms(2)
proof (rule createGradientWithOklch_result)
  let ?opts = "spread_options DEFAULT_OPTIONS options"
  fix main darkest lightest
  assume m: "lchMainColor lib mainColor = Some main"
    and d: "lchDarkest lib main ?opts = Some darkest"
    and li: "lchLightest lib main ?opts = Some lightest"
    and mc: "mainColorOklch r = \<lparr>l = l main, c = c main, h = h main\<rparr>"
    and f: "\<And>i. i < 11 \<Longrightarrow>
       formatHex lib (sampledColors lib darkest main lightest ?opts ! i) \<noteq> None"
    and g: "\<And>i. i < 11 \<Longrightarrow>
       gradient r (LUMINANCE ! i) =
         formatHex lib (sampledColors lib darkest main lightest ?opts ! i)"
    and p: "\<And>i. i < 11 \<Longrightarrow>
       oklchPoints r (LUMINANCE ! i) =
         Some \<lparr>l = l (sampledColors lib darkest main lightest ?opts ! i),
               c = c (sampledColors lib darkest main lightest ?opts ! i),
               h = h (sampledColors lib darkest main lightest ?opts ! i)\<rparr>"
  show "\<exists>main darkest lightest.
    lchMainColor lib mainColor = Some main \<and>
    lchDarkest lib main ?opts = Some darkest \<and>
    lchLightest lib main ?opts = Some lightest \<and>
    mainColorOklch r = \<lparr>l = l main, c = c main, h = h main\<rparr> \<and>
    (\<forall>i<11.
       formatHex lib (sampledColors lib darkest main lightest ?opts ! i) \<noteq> None \<and>
       gradient r (LUMINANCE ! i) =
         formatHex lib (sampledColors lib darkest main lightest ?opts ! i) \<and>
       oklchPoints r (LUMINANCE ! i) =
         Some \<lparr>l = l (sampledColors lib darkest main lightest ?opts ! i),
               c = c (sampledColors lib darkest main lightest ?opts ! i),
               h = h (sampledColors lib darkest main lightest ?opts ! i)\<rparr>)"
    apply (rule exI [of _ main], rule exI [of _ darkest], rule exI [of _ lightest])
    apply (intro conjI allI impI)
          apply (rule m d li mc | erule f g p)+
    done
qed

lemma createGradientWithOklch_returns:
  assumes "lchMainColor lib mainColor \<noteq> None"
    and "\<forall>col. clampGamut lib col \<noteq> None"
    and "\<forall>col. formatHex lib col \<noteq> None"
  shows "\<exists>r. createGradientWithOklch lib mainColor options = Inr r"
proof -
  let ?opts = "spread_options DEFAULT_OPTIONS options"
  from assms(1) obtain main where m: "lchMainColor lib mainColor = Some main"
    by auto
  from assms(2) have cl: "clampGamut lib col \<noteq> None" for col
    by simp
  from cl obtain darkest where d: "lchDarkest lib main ?opts = Some darkest"
    unfolding lchDarkest_def by blast
  from cl obtain lightest where li: "lchLightest lib main ?opts = Some lightest"
    unfolding lchLightest_def by blast
  from assms(3) have "\<forall>x \<in> set (sampledColors lib darkest main lightest ?opts). formatHex lib x \<noteq> None"
    by simp
  from discreteGradient_from_total [OF this] obtain entries where
    "discreteGradient lib (sampledColors lib darkest main lightest ?opts) = Inr entries"
    by (auto simp: discreteGradient_def)
  with m d li show ?thesis
    by (simp add: createGradientWithOklch_def assertIsDefined_def Let_def)
qed

lemma createGradientWithOklch_throws:
  assumes "lchMainColor lib mainColor = None"
  shows "createGradientWithOklch lib mainColor options = Inl (TypeError default_assert_message)"
  using assms
  by (simp add: createGradientWithOklch_def assertIsDefined_def Let_def)

lemma model_returns: "\<exists>r. createGradientWithOklch model_culori ''#3b82f6'' options = Inr r"
  by (rule createGradientWithOklch_returns)
    (simp_all add: lchMainColor_def model_culori_def model_parse_def model_clamp_def
      model_formatHex_def Let_def)


lemma LUMINANCE_nth_first: "LUMINANCE ! 0 = 950"
  by (simp add: LUMINANCE_def)

lemma LUMINANCE_nth_last: "LUMINANCE ! 10 = 50"
  by (simp add: LUMINANCE_def)

lemma set_LUMINANCE_boundary:
  "set LUMINANCE \<union> {0, 1000} = {0, 50, 100, 200, 300, 400, 500, 600, 700, 800, 900, 950, 1000}"
  by (auto simp: LUMINANCE_def)

lemma model_lchMainColor: "lchMainColor model_culori ''#3b82f6'' = Some blue500"
  by (simp add: lchMainColor_def model_culori_def model_parse_def blue500_def)

lemma model_lchDarkest:
  "lchDarkest model_culori col opts =
     Some (col\<lparr>l := minL opts, c := darkChroma opts\<rparr>)"
  by (simp add: lchDarkest_def model_culori_def model_clamp_def)

lemma model_lchLightest:
  "lchLightest model_culori col opts =
     Some (col\<lparr>l := maxL opts, c := lightChroma opts\<rparr>)"
  by (simp add: lchLightest_def model_culori_def model_clamp_def)

lemma model_lchGradient_ends:
  "lchGradient model_culori d m li opts 0 = d"
  "lchGradient model_culori d m li opts 1 = li"
  by (simp_all add: lchGradient_def model_culori_def model_interpolate_def)

lemma model_formatHex: "formatHex model_culori col = model_formatHex col"
  by (simp add: model_culori_def)

lemma spread_None: "spread_options DEFAULT_OPTIONS None = DEFAULT_OPTIONS"
  by (simp add: spread_options_def)


lemma model_throws:
  "createGradientWithOklch model_culori ''not a colour'' options =
     Inl (TypeError default_assert_message)"
  by (rule createGradientWithOklch_throws)
    (simp add: lchMainColor_def model_culori_def model_parse_def)

section \<open>The claims\<close>

text \<open>
  Claim C2. Both objects of a result, \<open>gradient\<close> and \<open>oklchPoints\<close>, have exactly the
  thirteen keys 0, 50, 100, 200, ..., 900, 950, 1000.
\<close>

theorem labels_complete:
  assumes "createGradientWithOklch lib mainColor options = Inr r"
  shows "dom (gradient r) = {0, 50, 100, 200, 300, 400, 500, 600, 700, 800, 900, 950, 1000} \<and>
         dom (oklchPoints r) = {0, 50, 100, 200, 300, 400, 500, 600, 700, 800, 900, 950, 1000} \<and>
         card (dom (gradient r)) = 13 \<and> card (dom (oklchPoints r)) = 13"
proof -
  from assms obtain main darkest lightest where
    "dom (gradient r) = set LUMINANCE \<union> {0, 1000}"
    "dom (oklchPoints r) = set LUMINANCE \<union> {0, 1000}"
    by (rule createGradientWithOklch_result)
  then have g: "dom (gradient r) = {0, 50, 100, 200, 300, 400, 500, 600, 700, 800, 900, 950, 1000}"
    and p: "dom (oklchPoints r) = {0, 50, 100, 200, 300, 400, 500, 600, 700, 800, 900, 950, 1000}"
    by (simp_all only: set_LUMINANCE_boundary)
  have "card {0, 50, 100, 200, 300, 400, 500, 600, 700, 800, 900, 950, 1000 :: nat} = 13"
    by simp
  with g p show ?thesis by simp
qed

theorem labels_complete_witness:
  "\<exists>r. createGradientWithOklch model_culori ''#3b82f6'' None = Inr r \<and>
       dom (gradient r) = {0, 50, 100, 200, 300, 400, 500, 600, 700, 800, 900, 950, 1000} \<and>
       dom (oklchPoints r) = {0, 50, 100, 200, 300, 400, 500, 600, 700, 800, 900, 950, 1000} \<and>
       card (dom (gradient r)) = 13 \<and> card (dom (oklchPoints r)) = 13"
proof -
  from model_returns obtain r where
    r: "createGradientWithOklch model_culori ''#3b82f6'' None = Inr r" ..
  from r labels_complete [OF r] show ?thesis by blast
qed

text \<open>
  Claim C3. In every result, label 0 is white and label 1000 is black, and their points are
  \<open>{l: 1, c: 0, h: undefined}\<close> and \<open>{l: 0, c: 0, h: undefined}\<close>.
\<close>

theorem boundary_colors:
  assumes "createGradientWithOklch lib mainColor options = Inr r"
  shows "gradient r 0 = Some ''#FFFFFF'' \<and> gradient r 1000 = Some ''#000000'' \<and>
         oklchPoints r 0 = Some \<lparr>l = 1, c = 0, h = None\<rparr> \<and>
         oklchPoints r 1000 = Some \<lparr>l = 0, c = 0, h = None\<rparr>"
proof -
  from assms obtain main darkest lightest where
    "gradient r 0 = Some WHITE" "gradient r 1000 = Some BLACK"
    "oklchPoints r 0 = Some \<lparr>l = 1, c = 0, h = None\<rparr>"
    "oklchPoints r 1000 = Some \<lparr>l = 0, c = 0, h = None\<rparr>"
    by (rule createGradientWithOklch_result)
  then show ?thesis by (simp add: WHITE_def BLACK_def)
qed

theorem boundary_colors_witness:
  "\<exists>r. createGradientWithOklch model_culori ''#3b82f6'' None = Inr r \<and>
       gradient r 0 = Some ''#FFFFFF'' \<and> gradient r 1000 = Some ''#000000'' \<and>
       oklchPoints r 0 = Some \<lparr>l = 1, c = 0, h = None\<rparr> \<and>
       oklchPoints r 1000 = Some \<lparr>l = 0, c = 0, h = None\<rparr>"
proof -
  from model_returns obtain r where
    r: "createGradientWithOklch model_culori ''#3b82f6'' None = Inr r" ..
  from r boundary_colors [OF r] show ?thesis by blast
qed

text \<open>
  Claim C4. The path is sampled at the eleven positions \<open>i/10\<close> for \<open>i = 0..10\<close>, and
  sample \<open>i\<close> is stored at the \<open>i\<close>-th label of the darkest-first sequence
  950, 900, 800, ..., 100, 50, in \<open>gradient\<close> as its hex string and in \<open>oklchPoints\<close> as its
  components.
\<close>

theorem samples_assignment:
  assumes "createGradientWithOklch lib mainColor options = Inr r"
    and "opts = spread_options DEFAULT_OPTIONS options"
  shows "\<exists>main darkest lightest.
           lchMainColor lib mainColor = Some main \<and>
           lchDarkest lib main opts = Some darkest \<and>
           lchLightest lib main opts = Some lightest \<and>
           length (sampledColors lib darkest main lightest opts) = 11 \<and>
           (\<forall>i<11.
              sampledColors lib darkest main lightest opts ! i =
                lchGradient lib darkest main lightest opts (real i / 10) \<and>
              gradient r ([950, 900, 800, 700, 600, 500, 400, 300, 200, 100, 50] ! i) =
                formatHex lib (lchGradient lib darkest main lightest opts (real i / 10)) \<and>
              oklchPoints r ([950, 900, 800, 700, 600, 500, 400, 300, 200, 100, 50] ! i) =
                Some \<lparr>l = l (lchGradient lib darkest main lightest opts (real i / 10)),
                      c = c (lchGradient lib darkest main lightest opts (real i / 10)),
                      h = h (lchGradient lib darkest main lightest opts (real i / 10))\<rparr>)"
  using createGradientWithOklch_shape [OF assms]
proof (elim exE conjE)
  fix main darkest lightest
  assume m: "lchMainColor lib mainColor = Some main"
    and d: "lchDarkest lib main opts = Some darkest"
    and li: "lchLightest lib main opts = Some lightest"
    and at: "\<forall>i<11.
       formatHex lib (sampledColors lib darkest main lightest opts ! i) \<noteq> None \<and>
       gradient r (LUMINANCE ! i) =
         formatHex lib (sampledColors lib darkest main lightest opts ! i) \<and>
       oklchPoints r (LUMINANCE ! i) =
         Some \<lparr>l = l (sampledColors lib darkest main lightest opts ! i),
               c = c (sampledColors lib darkest main lightest opts ! i),
               h = h (sampledColors lib darkest main lightest opts ! i)\<rparr>"
  have L: "[950, 900, 800, 700, 600, 500, 400, 300, 200, 100, 50] = LUMINANCE"
    by (simp add: LUMINANCE_def)
  show ?thesis
    unfolding L
    apply (rule exI [of _ main], rule exI [of _ darkest], rule exI [of _ lightest])
    apply (intro conjI allI impI)
          apply (rule m d li length_sampledColors)+
    subgoal for i by (rule nth_sampledColors)
    subgoal for i using at [rule_format, of i] by (simp add: nth_sampledColors)
    subgoal for i using at [rule_format, of i] by (simp add: nth_sampledColors)
    done
qed

theorem samples_assignment_witness:
  "\<exists>r. createGradientWithOklch model_culori ''#3b82f6'' None = Inr r \<and>
       oklchPoints r 950 = Some \<lparr>l = 0.2, c = 0.001, h = Some 259.81\<rparr> \<and>
       gradient r 950 = Some ''#333333'' \<and>
       oklchPoints r 500 = Some \<lparr>l = 0.6231, c = 0.188, h = Some 259.81\<rparr> \<and>
       oklchPoints r 50 = Some \<lparr>l = 0.98, c = 0.01, h = Some 259.81\<rparr> \<and>
       gradient r 50 = Some ''#fafafa''"
proof -
  from model_returns obtain r where
    r: "createGradientWithOklch model_culori ''#3b82f6'' None = Inr r" ..
  from samples_assignment [OF r spread_None [symmetric]] show ?thesis
  proof (elim exE conjE)
  fix main darkest lightest
  assume m: "lchMainColor model_culori ''#3b82f6'' = Some main" and
    d: "lchDarkest model_culori main DEFAULT_OPTIONS = Some darkest" and
    li: "lchLightest model_culori main DEFAULT_OPTIONS = Some lightest" and
    at: "\<forall>i<11.
      sampledColors model_culori darkest main lightest DEFAULT_OPTIONS ! i =
        lchGradient model_culori darkest main lightest DEFAULT_OPTIONS (real i / 10) \<and>
      gradient r ([950, 900, 800, 700, 600, 500, 400, 300, 200, 100, 50] ! i) =
        formatHex model_culori (lchGradient model_culori darkest main lightest DEFAULT_OPTIONS (real i / 10)) \<and>
      oklchPoints r ([950, 900, 800, 700, 600, 500, 400, 300, 200, 100, 50] ! i) =
        Some \<lparr>l = l (lchGradient model_culori darkest main lightest DEFAULT_OPTIONS (real i / 10)),
              c = c (lchGradient model_culori darkest main lightest DEFAULT_OPTIONS (real i / 10)),
              h = h (lchGradient model_culori darkest main lightest DEFAULT_OPTIONS (real i / 10))\<rparr>"
  from m have main: "main = blue500" by (simp add: model_lchMainColor)
  from d have darkest: "darkest = \<lparr>l = 0.2, c = 0.001, h = Some 259.81, alpha = None\<rparr>"
    unfolding main model_lchDarkest by (simp add: DEFAULT_OPTIONS_def blue500_def)
  from li have lightest: "lightest = \<lparr>l = 0.98, c = 0.01, h = Some 259.81, alpha = None\<rparr>"
    unfolding main model_lchLightest by (simp add: DEFAULT_OPTIONS_def blue500_def)
  have mid: "lchGradient model_culori darkest main lightest DEFAULT_OPTIONS (1 / 2) = main"
    by (simp add: lchGradient_def model_culori_def model_interpolate_def DEFAULT_OPTIONS_def
        mix_def lerp_def lerp_hue_def main lightest blue500_def)
  from at [rule_format, of 0] have
    g0: "gradient r 950 = model_formatHex darkest" and
    p0: "oklchPoints r 950 = Some \<lparr>l = l darkest, c = c darkest, h = h darkest\<rparr>"
    by (simp_all add: model_lchGradient_ends model_formatHex)
  from at [rule_format, of 5] have
    p5: "oklchPoints r 500 = Some \<lparr>l = l main, c = c main, h = h main\<rparr>"
    by (simp add: mid)
  from at [rule_format, of 10] have
    g10: "gradient r 50 = model_formatHex lightest" and
    p10: "oklchPoints r 50 = Some \<lparr>l = l lightest, c = c lightest, h = h lightest\<rparr>"
    by (simp_all add: model_lchGradient_ends model_formatHex)
  have "gradient r 950 = Some ''#333333''"
    unfolding g0 darkest by (simp add: model_formatHex_def hex_digit_def Let_def)
  moreover have "gradient r 50 = Some ''#fafafa''"
    unfolding g10 lightest by (simp add: model_formatHex_def hex_digit_def Let_def)
  moreover have "oklchPoints r 950 = Some \<lparr>l = 0.2, c = 0.001, h = Some 259.81\<rparr>"
    unfolding p0 darkest by simp
  moreover have "oklchPoints r 500 = Some \<lparr>l = 0.6231, c = 0.188, h = Some 259.81\<rparr>"
    unfolding p5 main blue500_def by simp
  moreover have "oklchPoints r 50 = Some \<lparr>l = 0.98, c = 0.01, h = Some 259.81\<rparr>"
    unfolding p10 lightest by simp
  ultimately show ?thesis using r by (intro exI [of _ r]) simp
  qed
qed




text \<open>
  Claim C9. At every label of 950, 900, ..., 100, 50 the hex string in \<open>gradient\<close> is the
  hex conversion of the sampled colour whose components \<open>oklchPoints\<close> stores at that label.
\<close>

theorem palette_matches_points:
  assumes "createGradientWithOklch lib mainColor options = Inr r"
    and "opts = spread_options DEFAULT_OPTIONS options"
  shows "\<exists>main darkest lightest.
           lchMainColor lib mainColor = Some main \<and>
           lchDarkest lib main opts = Some darkest \<and>
           lchLightest lib main opts = Some lightest \<and>
           (\<forall>label \<in> set [950, 900, 800, 700, 600, 500, 400, 300, 200, 100, 50].
              \<exists>col \<in> set (sampledColors lib darkest main lightest opts). \<exists>hex.
                oklchPoints r label = Some \<lparr>l = l col, c = c col, h = h col\<rparr> \<and>
                formatHex lib col = Some hex \<and>
                gradient r label = Some hex)"
  using createGradientWithOklch_shape [OF assms]
proof (elim exE conjE)
  fix main darkest lightest
  assume m: "lchMainColor lib mainColor = Some main"
    and d: "lchDarkest lib main opts = Some darkest"
    and li: "lchLightest lib main opts = Some lightest"
    and at: "\<forall>i<11.
       formatHex lib (sampledColors lib darkest main lightest opts ! i) \<noteq> None \<and>
       gradient r (LUMINANCE ! i) =
         formatHex lib (sampledColors lib darkest main lightest opts ! i) \<and>
       oklchPoints r (LUMINANCE ! i) =
         Some \<lparr>l = l (sampledColors lib darkest main lightest opts ! i),
               c = c (sampledColors lib darkest main lightest opts ! i),
               h = h (sampledColors lib darkest main lightest opts ! i)\<rparr>"
  let ?cols = "sampledColors lib darkest main lightest opts"
  have L: "[950, 900, 800, 700, 600, 500, 400, 300, 200, 100, 50] = LUMINANCE"
    by (simp add: LUMINANCE_def)
  have each: "\<exists>col \<in> set ?cols. \<exists>hex.
                oklchPoints r label = Some \<lparr>l = l col, c = c col, h = h col\<rparr> \<and>
                formatHex lib col = Some hex \<and>
                gradient r label = Some hex"
    if "label \<in> set LUMINANCE" for label
  proof -
    from that obtain i where i: "i < 11" and lab: "label = LUMINANCE ! i"
      by (auto simp: in_set_conv_nth length_LUMINANCE)
    from at i have
      f: "formatHex lib (?cols ! i) \<noteq> None" and
      g: "gradient r (LUMINANCE ! i) = formatHex lib (?cols ! i)" and
      p: "oklchPoints r (LUMINANCE ! i) =
            Some \<lparr>l = l (?cols ! i), c = c (?cols ! i), h = h (?cols ! i)\<rparr>"
      by simp_all
    from f obtain hex where hex: "formatHex lib (?cols ! i) = Some hex" by auto
    from i have "?cols ! i \<in> set ?cols" by (simp add: length_sampledColors)
    with hex g p lab show ?thesis by auto
  qed
  show ?thesis
    unfolding L
    apply (rule exI [of _ main], rule exI [of _ darkest], rule exI [of _ lightest])
    apply (intro conjI ballI)
       apply (rule m d li | erule each)+
    done
qed

theorem palette_matches_points_witness:
  "\<exists>r col hex.
     createGradientWithOklch model_culori ''#3b82f6'' None = Inr r \<and>
     oklchPoints r 950 = Some \<lparr>l = l col, c = c col, h = h col\<rparr> \<and>
     formatHex model_culori col = Some hex \<and>
     gradient r 950 = Some hex"
proof -
  from model_returns obtain r where
    r: "createGradientWithOklch model_culori ''#3b82f6'' None = Inr r" ..
  from palette_matches_points [OF r refl] obtain main darkest lightest where
    "\<forall>label \<in> set [950, 900, 800, 700, 600, 500, 400, 300, 200, 100, 50].
       \<exists>col \<in> set (sampledColors model_culori darkest main lightest
                     (spread_options DEFAULT_OPTIONS None)). \<exists>hex.
         oklchPoints r label = Some \<lparr>l = l col, c = c col, h = h col\<rparr> \<and>
         formatHex model_culori col = Some hex \<and>
         gradient r label = Some hex"
    by (elim exE conjE)
  then have "\<exists>col \<in> set (sampledColors model_culori darkest main lightest
                     (spread_options DEFAULT_OPTIONS None)). \<exists>hex.
         oklchPoints r 950 = Some \<lparr>l = l col, c = c col, h = h col\<rparr> \<and>
         formatHex model_culori col = Some hex \<and>
         gradient r 950 = Some hex"
    by (rule bspec) simp
  with r show ?thesis by (elim bexE exE conjE) (intro exI conjI)
qed

text \<open>
  Claim C10. \<open>createGradient\<close> returns the \<open>gradient\<close> field of what
  \<open>createGradientWithOklch\<close> returns for the same arguments, and throws when it throws.
\<close>

theorem createGradient_agrees:
  "(\<forall>r. createGradientWithOklch lib mainColor options = Inr r \<longrightarrow>
        createGradient lib mainColor options = Inr (gradient r)) \<and>
   (\<forall>e. createGradientWithOklch lib mainColor options = Inl e \<longrightarrow>
        createGradient lib mainColor options = Inl e)"
  by (simp add: createGradient_def)

theorem createGradient_agrees_witness:
  "(\<exists>r. createGradientWithOklch model_culori ''#3b82f6'' None = Inr r \<and>
        createGradient model_culori ''#3b82f6'' None = Inr (gradient r)) \<and>
   createGradientWithOklch model_culori ''not a colour'' None = Inl (TypeError default_assert_message) \<and>
   createGradient model_culori ''not a colour'' None = Inl (TypeError default_assert_message)"
proof -
  from model_returns obtain r where
    r: "createGradientWithOklch model_culori ''#3b82f6'' None = Inr r" ..
  note e = model_throws [of None]
  from createGradient_agrees [of model_culori "''#3b82f6''" None] r
  have "createGradient model_culori ''#3b82f6'' None = Inr (gradient r)" by simp
  moreover from createGradient_agrees [of model_culori "''not a colour''" None] e
  have "createGradient model_culori ''not a colour'' None = Inl (TypeError default_assert_message)"
    by simp
  ultimately show ?thesis using r e by (intro conjI exI [of _ r]) simp_all
qed

end
